theory Spec2Isabelle
  imports Main "HOL-Library.Word"
begin

section \<open>The C++ runtime of the Ljos standard library\<close>

text \<open>
  The runtime is four headers of thin wrappers around the C++ standard library:
  \<^verbatim>\<open>string.hpp\<close>, \<^verbatim>\<open>math.hpp\<close>, \<^verbatim>\<open>io.hpp\<close> and \<^verbatim>\<open>fs.hpp\<close>. Each wrapper is embedded
  as a HOL function of the same name. The library operations the wrappers call
  (\<^verbatim>\<open>std::string::find\<close>, \<^verbatim>\<open>substr\<close>, \<^verbatim>\<open>std::stoi\<close>, ...) are embedded first, from the
  wording of the C++ standard; an exception they throw is the \<open>Inl\<close> branch of a sum.

  A \<^verbatim>\<open>std::string\<close> is a \<open>string\<close> (a list of bytes). Positions and lengths inside a
  string are \<open>nat\<close>; a \<^verbatim>\<open>size_t\<close> that leaves a function is a 64-bit word, and an
  \<^verbatim>\<open>int\<close> is an \<open>int\<close> with the 32-bit conversion written out where the source converts.
\<close>

subsection \<open>Library operations on strings\<close>

type_synonym size_t = "64 word"

datatype cpp_exception = invalid_argument | out_of_range

text \<open>\<^verbatim>\<open>std::string::npos\<close>, the largest \<^verbatim>\<open>size_t\<close>.\<close>

definition npos :: nat where
  "npos = 2 ^ 64 - 1"

text \<open>
  \<open>match_at s t p\<close>: the text \<open>t\<close> stands in \<open>s\<close> at position \<open>p\<close>, the condition
  of \<^verbatim>\<open>find\<close> and \<^verbatim>\<open>rfind\<close>: \<^verbatim>\<open>xpos + str.size() <= size()\<close> and the characters agree.
\<close>

definition match_at :: "string \<Rightarrow> string \<Rightarrow> nat \<Rightarrow> bool" where
  "match_at s t p = (p + length t \<le> length s \<and> take (length t) (drop p s) = t)"

text \<open>
  \<^verbatim>\<open>s.find(t, pos)\<close>: the lowest position from \<open>pos\<close> on where \<open>t\<close> stands; \<open>None\<close> is
  the result \<^verbatim>\<open>npos\<close>. \<^verbatim>\<open>s.rfind(t)\<close>: the highest such position.
\<close>

definition std_find :: "string \<Rightarrow> string \<Rightarrow> nat \<Rightarrow> nat option" where
  "std_find s t pos = List.find (match_at s t) [pos ..< Suc (length s)]"

definition std_rfind :: "string \<Rightarrow> string \<Rightarrow> nat option" where
  "std_rfind s t = List.find (match_at s t) (rev [0 ..< Suc (length s)])"

text \<open>
  \<^verbatim>\<open>s.substr(pos, n)\<close> throws \<^verbatim>\<open>out_of_range\<close> when \<open>pos\<close> is past the end, and
  otherwise copies at most \<open>n\<close> characters from \<open>pos\<close>. \<^verbatim>\<open>s.replace(pos, n, t)\<close> throws
  on the same condition and otherwise puts \<open>t\<close> in place of those characters.
\<close>

definition substr :: "string \<Rightarrow> nat \<Rightarrow> nat \<Rightarrow> cpp_exception + string" where
  "substr s pos n = (if length s < pos then Inl out_of_range else Inr (take n (drop pos s)))"

definition string_replace :: "string \<Rightarrow> nat \<Rightarrow> nat \<Rightarrow> string \<Rightarrow> cpp_exception + string" where
  "string_replace s pos n t =
     (if length s < pos then Inl out_of_range else Inr (take pos s @ t @ drop (pos + n) s))"

text \<open>Character classes of the C locale.\<close>

definition isspace :: "char \<Rightarrow> bool" where
  "isspace c = ((of_char c :: nat) = 32 \<or> (9 \<le> (of_char c :: nat) \<and> (of_char c :: nat) \<le> 13))"

definition isdigit :: "char \<Rightarrow> bool" where
  "isdigit c = (48 \<le> (of_char c :: nat) \<and> (of_char c :: nat) \<le> 57)"

text \<open>Conversions between the integer types: to \<^verbatim>\<open>int\<close> (32 bits, two's complement) and to \<^verbatim>\<open>size_t\<close>.\<close>

definition INT_MIN :: int where
  "INT_MIN = - (2 ^ 31)"

definition INT_MAX :: int where
  "INT_MAX = 2 ^ 31 - 1"

definition to_int :: "int \<Rightarrow> int" where
  "to_int x = (x + 2 ^ 31) mod 2 ^ 32 - 2 ^ 31"

definition to_size_t :: "int \<Rightarrow> nat" where
  "to_size_t x = nat (x mod 2 ^ 64)"

text \<open>
  \<^verbatim>\<open>std::stoi(s)\<close> is \<^verbatim>\<open>strtol\<close> in base 10 with two checks. \<^verbatim>\<open>strtol\<close> skips leading white
  space, reads an optional sign and then the longest run of digits, and stops at the
  first other character. \<^verbatim>\<open>stoi\<close> throws \<^verbatim>\<open>invalid_argument\<close> when no digit was read and
  \<^verbatim>\<open>out_of_range\<close> when the value does not fit an \<^verbatim>\<open>int\<close>; what follows the digits is
  not looked at.
\<close>

definition decimal_value :: "string \<Rightarrow> int" where
  "decimal_value ds = foldl (\<lambda>acc c. 10 * acc + (int (of_char c) - 48)) 0 ds"

definition stoi :: "string \<Rightarrow> cpp_exception + int" where
  "stoi s =
     (let body = dropWhile isspace s;
          negative = (body \<noteq> [] \<and> hd body = CHR ''-'');
          signed = (body \<noteq> [] \<and> (hd body = CHR ''-'' \<or> hd body = CHR ''+''));
          digits = takeWhile isdigit (if signed then tl body else body);
          v = (if negative then - decimal_value digits else decimal_value digits)
      in if digits = [] then Inl invalid_argument
         else if v < INT_MIN \<or> INT_MAX < v then Inl out_of_range
         else Inr v)"

text \<open>
  \<^verbatim>\<open>std::stod(s)\<close> is \<^verbatim>\<open>strtod\<close> with two checks. \<^verbatim>\<open>strtod\<close> skips leading white space and
  converts the subject sequence, the longest start of the rest that has the expected
  form: an optional sign, then a decimal number (digits with at most one point and at
  least one digit, then an optional exponent \<^verbatim>\<open>e\<close>, sign, digits), or \<^verbatim>\<open>0x\<close> and a hexadecimal
  number of the same shape with a binary exponent \<^verbatim>\<open>p\<close>, or \<^verbatim>\<open>inf\<close>, \<^verbatim>\<open>infinity\<close>, \<^verbatim>\<open>nan\<close> or
  \<^verbatim>\<open>nan(...)\<close> in any case of letters. \<^verbatim>\<open>stod\<close> throws \<^verbatim>\<open>invalid_argument\<close> when the subject
  sequence is empty and \<^verbatim>\<open>out_of_range\<close> when \<^verbatim>\<open>strtod\<close> reports a range error. A \<^verbatim>\<open>double\<close> is
  a value of the type \<open>'d\<close>; the value of a subject sequence is the parameter
  \<open>to_double\<close>, \<open>None\<close> on a range error.
\<close>

definition isxdigit :: "char \<Rightarrow> bool" where
  "isxdigit c = (isdigit c \<or> (65 \<le> (of_char c :: nat) \<and> (of_char c :: nat) \<le> 70)
     \<or> (97 \<le> (of_char c :: nat) \<and> (of_char c :: nat) \<le> 102))"

definition isalpha :: "char \<Rightarrow> bool" where
  "isalpha c = ((65 \<le> (of_char c :: nat) \<and> (of_char c :: nat) \<le> 90)
     \<or> (97 \<le> (of_char c :: nat) \<and> (of_char c :: nat) \<le> 122))"

definition tolower :: "char \<Rightarrow> char" where
  "tolower c = (if 65 \<le> (of_char c :: nat) \<and> (of_char c :: nat) \<le> 90
     then char_of ((of_char c :: nat) + 32) else c)"

definition sign_of :: "string \<Rightarrow> string" where
  "sign_of xs = (if xs \<noteq> [] \<and> (hd xs = CHR ''+'' \<or> hd xs = CHR ''-'') then [hd xs] else [])"

definition mantissa :: "(char \<Rightarrow> bool) \<Rightarrow> string \<Rightarrow> string" where
  "mantissa digit xs =
     (let whole = takeWhile digit xs;
          r = dropWhile digit xs
      in if r \<noteq> [] \<and> hd r = CHR ''.''
         then (let fraction = takeWhile digit (tl r)
               in if whole = [] \<and> fraction = [] then [] else whole @ CHR ''.'' # fraction)
         else whole)"

definition exponent :: "char \<Rightarrow> string \<Rightarrow> string" where
  "exponent letter xs =
     (if xs \<noteq> [] \<and> tolower (hd xs) = letter
      then (let sg = sign_of (tl xs);
                ds = takeWhile isdigit (drop (length sg) (tl xs))
            in if ds = [] then [] else hd xs # sg @ ds)
      else [])"

definition number_form :: "(char \<Rightarrow> bool) \<Rightarrow> char \<Rightarrow> string \<Rightarrow> string" where
  "number_form digit letter xs =
     (let m = mantissa digit xs
      in if m = [] then [] else m @ exponent letter (drop (length m) xs))"

definition nan_tail :: "string \<Rightarrow> string" where
  "nan_tail xs =
     (if xs \<noteq> [] \<and> hd xs = CHR ''(''
      then (let cs = takeWhile (\<lambda>c. isdigit c \<or> isalpha c \<or> c = CHR ''_'') (tl xs);
                r = drop (length cs) (tl xs)
            in if r \<noteq> [] \<and> hd r = CHR '')'' then CHR ''('' # cs @ '')'' else [])
      else [])"

definition strtod_unsigned :: "string \<Rightarrow> string" where
  "strtod_unsigned xs =
     (if map tolower (take 2 xs) = ''0x'' \<and> number_form isxdigit (CHR ''p'') (drop 2 xs) \<noteq> []
      then take 2 xs @ number_form isxdigit (CHR ''p'') (drop 2 xs)
      else if number_form isdigit (CHR ''e'') xs \<noteq> [] then number_form isdigit (CHR ''e'') xs
      else if map tolower (take 8 xs) = ''infinity'' then take 8 xs
      else if map tolower (take 3 xs) = ''inf'' then take 3 xs
      else if map tolower (take 3 xs) = ''nan'' then take 3 xs @ nan_tail (drop 3 xs)
      else [])"

definition strtod_subject :: "string \<Rightarrow> string" where
  "strtod_subject s =
     (let body = dropWhile isspace s;
          sg = sign_of body;
          u = strtod_unsigned (drop (length sg) body)
      in if u = [] then [] else sg @ u)"

definition stod :: "(string \<Rightarrow> 'd option) \<Rightarrow> string \<Rightarrow> cpp_exception + 'd" where
  "stod to_double s =
     (let subject = strtod_subject s
      in if subject = [] then Inl invalid_argument
         else case to_double subject of None \<Rightarrow> Inl out_of_range | Some v \<Rightarrow> Inr v)"

subsection \<open>string.hpp\<close>

text \<open>
  \<^verbatim>\<open>slice\<close> (lines 43 to 49), here \<open>slice_str\<close> (the word library has a \<open>slice\<close> of its
  own). \<open>len\<close> is the length converted to \<^verbatim>\<open>int\<close>; the two arguments of \<^verbatim>\<open>substr\<close> are
  converted from \<^verbatim>\<open>int\<close> to \<^verbatim>\<open>size_t\<close>.
\<close>

definition slice_str :: "string \<Rightarrow> int \<Rightarrow> int \<Rightarrow> cpp_exception + string" where
  "slice_str s start endx =
     (let len = to_int (int (length s));
          start1 = (if start < 0 then max 0 (to_int (len + start)) else start);
          end1 = (if endx < 0 then to_int (len + endx) else endx)
      in if len \<le> start1 \<or> end1 \<le> start1 then Inr []
         else substr s (to_size_t start1) (to_size_t (to_int (min end1 len - start1))))"

text \<open>
  \<^verbatim>\<open>indexOf\<close>, \<^verbatim>\<open>lastIndexOf\<close> and \<^verbatim>\<open>contains\<close> (lines 53 to 65). The return type of the
  first two is \<^verbatim>\<open>size_t\<close>: the \<^verbatim>\<open>-1\<close> of the conditional expression is converted to it.
\<close>

definition indexOf :: "string \<Rightarrow> string \<Rightarrow> nat \<Rightarrow> size_t" where
  "indexOf s search start =
     (case std_find s search start of None \<Rightarrow> - 1 | Some pos \<Rightarrow> of_nat pos)"

definition lastIndexOf :: "string \<Rightarrow> string \<Rightarrow> size_t" where
  "lastIndexOf s search =
     (case std_rfind s search of None \<Rightarrow> - 1 | Some pos \<Rightarrow> of_nat pos)"

definition contains :: "string \<Rightarrow> string \<Rightarrow> bool" where
  "contains s search = (std_find s search 0 \<noteq> None)"

text \<open>
  \<^verbatim>\<open>split\<close> (lines 116 to 136). The loop keeps \<open>start\<close> and looks for the next
  delimiter from there; it is entered with a non-empty delimiter only (line 118 returns
  before it), and the first test of \<open>split_loop\<close> repeats that guard so that the
  recursion is total.
\<close>

lemma std_find_Some:
  assumes "std_find s t pos = Some p"
  shows "pos \<le> p" and "match_at s t p" and "p + length t \<le> length s"
proof -
  from assms obtain i where i: "i < length [pos ..< Suc (length s)]"
    and m: "match_at s t ([pos ..< Suc (length s)] ! i)" and p: "p = [pos ..< Suc (length s)] ! i"
    unfolding std_find_def find_Some_iff by blast
  from i have "p = pos + i"
    unfolding p by (intro nth_upt) (simp del: upt_Suc)
  then show "pos \<le> p" by simp
  from m p have m: "match_at s t p" by simp
  from m show "match_at s t p" .
  from m show "p + length t \<le> length s" by (simp add: match_at_def)
qed

function split_loop :: "string \<Rightarrow> string \<Rightarrow> nat \<Rightarrow> string list \<Rightarrow> cpp_exception + string list" where
  "split_loop s delimiter start result =
     (if delimiter = [] then Inr result
      else case std_find s delimiter start of
        None \<Rightarrow>
          (case substr s start npos of
             Inl e \<Rightarrow> Inl e
           | Inr piece \<Rightarrow> Inr (result @ [piece]))
      | Some endx \<Rightarrow>
          (case substr s start (endx - start) of
             Inl e \<Rightarrow> Inl e
           | Inr piece \<Rightarrow> split_loop s delimiter (endx + length delimiter) (result @ [piece])))"
  by pat_completeness auto
termination
proof (relation "measure (\<lambda>(s, delimiter, start, result). Suc (length s) - start)")
  show "wf (measure (\<lambda>(s, delimiter, start, result). Suc (length s) - start))"
    by simp
next
  fix s delimiter :: string and start endx :: nat and result :: "string list" and piece :: string
  assume "delimiter \<noteq> []" and "std_find s delimiter start = Some endx"
  then have "start \<le> endx" and "endx + length delimiter \<le> length s" and "0 < length delimiter"
    by (auto dest: std_find_Some)
  then have "Suc (length s) - (endx + length delimiter) < Suc (length s) - start"
    by arith
  then show "((s, delimiter, endx + length delimiter, result @ [piece]), (s, delimiter, start, result))
      \<in> measure (\<lambda>(s, delimiter, start, result). Suc (length s) - start)"
    by simp
qed

definition split :: "string \<Rightarrow> string \<Rightarrow> cpp_exception + string list" where
  "split s delimiter =
     (if delimiter = [] then Inr (map (\<lambda>c. [c]) s)
      else split_loop s delimiter 0 [])"

text \<open>\<^verbatim>\<open>join\<close> (lines 138 to 147).\<close>

definition join :: "string list \<Rightarrow> string \<Rightarrow> string" where
  "join parts delimiter =
     (case parts of
        [] \<Rightarrow> []
      | p # ps \<Rightarrow> foldl (\<lambda>oss part. oss @ delimiter @ part) p ps)"

text \<open>
  \<^verbatim>\<open>replace\<close> (lines 151 to 161) and \<^verbatim>\<open>replaceFirst\<close> (lines 163 to 170). The loop of
  \<^verbatim>\<open>replace\<close> runs with a non-empty \<open>from\<close> only (line 152 returns before it); the first
  test of \<open>replace_loop\<close> repeats that guard so that the recursion is total.
  \<^verbatim>\<open>replaceFirst\<close> has no such line.
\<close>

function replace_loop :: "string \<Rightarrow> string \<Rightarrow> string \<Rightarrow> nat \<Rightarrow> cpp_exception + string" where
  "replace_loop result from to pos =
     (if from = [] then Inr result
      else case std_find result from pos of
        None \<Rightarrow> Inr result
      | Some found \<Rightarrow>
          (case string_replace result found (length from) to of
             Inl e \<Rightarrow> Inl e
           | Inr result' \<Rightarrow> replace_loop result' from to (found + length to)))"
  by pat_completeness auto
termination
proof (relation "measure (\<lambda>(result, from, to, pos). Suc (length result) - pos)")
  show "wf (measure (\<lambda>(result, from, to, pos). Suc (length result) - pos))"
    by simp
next
  fix result fr t result' :: string and pos found :: nat
  assume "fr \<noteq> []" and "std_find result fr pos = Some found"
    and r: "string_replace result found (length fr) t = Inr result'"
  then have b: "pos \<le> found" "found + length fr \<le> length result" "0 < length fr"
    by (auto dest: std_find_Some)
  with r have "length result' = found + length t + (length result - (found + length fr))"
    by (auto simp: string_replace_def split: if_splits)
  with b have "Suc (length result') - (found + length t) < Suc (length result) - pos"
    by arith
  then show "((result', fr, t, found + length t), (result, fr, t, pos))
      \<in> measure (\<lambda>(result, from, to, pos). Suc (length result) - pos)"
    by simp
qed

definition replace :: "string \<Rightarrow> string \<Rightarrow> string \<Rightarrow> cpp_exception + string" where
  "replace s from to = (if from = [] then Inr s else replace_loop s from to 0)"

definition replaceFirst :: "string \<Rightarrow> string \<Rightarrow> string \<Rightarrow> cpp_exception + string" where
  "replaceFirst s from to =
     (case std_find s from 0 of
        None \<Rightarrow> Inr s
      | Some pos \<Rightarrow> string_replace s pos (length from) to)"

text \<open>
  \<^verbatim>\<open>toInt\<close> (lines 197 to 203): the \<^verbatim>\<open>catch (...)\<close> turns every exception of \<^verbatim>\<open>stoi\<close> into
  the default.
\<close>

definition toInt :: "string \<Rightarrow> int \<Rightarrow> int" where
  "toInt s defaultValue = (case stoi s of Inr v \<Rightarrow> v | Inl e \<Rightarrow> defaultValue)"

text \<open>\<^verbatim>\<open>toFloat\<close> (lines 205 to 211), with the same \<^verbatim>\<open>catch (...)\<close> around \<^verbatim>\<open>stod\<close>.\<close>

definition toFloat :: "(string \<Rightarrow> 'd option) \<Rightarrow> string \<Rightarrow> 'd \<Rightarrow> 'd" where
  "toFloat to_double s defaultValue =
     (case stod to_double s of Inr v \<Rightarrow> v | Inl e \<Rightarrow> defaultValue)"

text \<open>\<^verbatim>\<open>isNumeric\<close> (lines 228 to 234): the loop leaves at the first character it refuses.\<close>

fun isNumeric_loop :: "string \<Rightarrow> bool" where
  "isNumeric_loop [] = True"
| "isNumeric_loop (c # cs) =
     (if \<not> isdigit c \<and> c \<noteq> CHR ''.'' \<and> c \<noteq> CHR ''-'' \<and> c \<noteq> CHR ''+'' then False
      else isNumeric_loop cs)"

definition isNumeric :: "string \<Rightarrow> bool" where
  "isNumeric s = (if s = [] then False else isNumeric_loop s)"

text \<open>
  The slice the specification describes: a negative index counts from the end, both
  bounds are clamped into \<open>[0, length]\<close>, and the result is empty when the clamped start
  is not before the clamped end.
\<close>

definition slice_spec :: "string \<Rightarrow> int \<Rightarrow> int \<Rightarrow> string" where
  "slice_spec s start endx =
     (let n = int (length s);
          a = max 0 (min n (if start < 0 then n + start else start));
          b = max 0 (min n (if endx < 0 then n + endx else endx))
      in if b \<le> a then [] else take (nat (b - a)) (drop (nat a) s))"

subsection \<open>math.hpp: the random stream\<close>

text \<open>
  The random functions (lines 84 to 111) share one engine, the function-local static
  \<^verbatim>\<open>gen\<close> of \<^verbatim>\<open>getRandomEngine\<close>. What the library does with an engine is a parameter of
  the embedding, a \<open>random_library\<close>: the state in which \<^verbatim>\<open>std::mt19937\<close> is after
  \<^verbatim>\<open>seed(value)\<close> (the constructor from a value leaves the same state), and what a uniform
  distribution over given bounds returns from an engine, with the engine as it leaves
  it. The standard fixes the engine and leaves the algorithm of the distributions to the
  implementation; it has them read nothing but their bounds and the engine. A \<^verbatim>\<open>double\<close>
  is a value of the type \<open>'d\<close>, with the constants \<^verbatim>\<open>0.0\<close> and \<^verbatim>\<open>1.0\<close> of line 92.
\<close>

record ('e, 'd) random_library =
  mt19937_seed :: "32 word \<Rightarrow> 'e"
  uniform_int_distribution :: "int \<Rightarrow> int \<Rightarrow> 'e \<Rightarrow> int \<times> 'e"
  uniform_real_distribution :: "'d \<Rightarrow> 'd \<Rightarrow> 'e \<Rightarrow> 'd \<times> 'e"
  double_zero :: 'd
  double_one :: 'd

text \<open>
  The state of the process is the static \<^verbatim>\<open>gen\<close>: \<open>None\<close> until the first call of
  \<^verbatim>\<open>getRandomEngine\<close>, which constructs it from \<open>rd\<close>, the number \<^verbatim>\<open>std::random_device\<close>
  gives in this run. Each function returns its result and the state it leaves.
\<close>

definition getRandomEngine :: "('e, 'd) random_library \<Rightarrow> 32 word \<Rightarrow> 'e option \<Rightarrow> 'e" where
  "getRandomEngine L rd gen = (case gen of None \<Rightarrow> mt19937_seed L rd | Some g \<Rightarrow> g)"

definition random01 :: "('e, 'd) random_library \<Rightarrow> 32 word \<Rightarrow> 'e option \<Rightarrow> 'd \<times> 'e option" where
  "random01 L rd gen =
     (let (x, g) = uniform_real_distribution L (double_zero L) (double_one L) (getRandomEngine L rd gen)
      in (x, Some g))"

definition randomInt :: "('e, 'd) random_library \<Rightarrow> 32 word \<Rightarrow> int \<Rightarrow> int \<Rightarrow> 'e option \<Rightarrow> int \<times> 'e option" where
  "randomInt L rd lo hi gen =
     (let (x, g) = uniform_int_distribution L lo hi (getRandomEngine L rd gen)
      in (x, Some g))"

definition randomFloat :: "('e, 'd) random_library \<Rightarrow> 32 word \<Rightarrow> 'd \<Rightarrow> 'd \<Rightarrow> 'e option \<Rightarrow> 'd \<times> 'e option" where
  "randomFloat L rd lo hi gen =
     (let (x, g) = uniform_real_distribution L lo hi (getRandomEngine L rd gen)
      in (x, Some g))"

definition seed :: "('e, 'd) random_library \<Rightarrow> 32 word \<Rightarrow> 32 word \<Rightarrow> 'e option \<Rightarrow> 'e option" where
  "seed L rd s gen = (let g = getRandomEngine L rd gen in Some (mt19937_seed L s))"

text \<open>
  A run of a program, as far as the random stream goes, is the sequence of its calls of
  these four functions; \<open>run\<close> gives what the calls return, in order.
\<close>

datatype 'd call = Random | RandomInt int int | RandomFloat 'd 'd | Seed "32 word"

datatype 'd returned = RDouble 'd | RInt int | RVoid

fun do_call :: "('e, 'd) random_library \<Rightarrow> 32 word \<Rightarrow> 'd call \<Rightarrow> 'e option \<Rightarrow> 'd returned \<times> 'e option" where
  "do_call L rd Random gen = (let (x, gen') = random01 L rd gen in (RDouble x, gen'))"
| "do_call L rd (RandomInt lo hi) gen = (let (x, gen') = randomInt L rd lo hi gen in (RInt x, gen'))"
| "do_call L rd (RandomFloat lo hi) gen = (let (x, gen') = randomFloat L rd lo hi gen in (RDouble x, gen'))"
| "do_call L rd (Seed s) gen = (RVoid, seed L rd s gen)"

fun run :: "('e, 'd) random_library \<Rightarrow> 32 word \<Rightarrow> 'd call list \<Rightarrow> 'e option \<Rightarrow> 'd returned list" where
  "run L rd [] gen = []"
| "run L rd (c # cs) gen = (let (r, gen') = do_call L rd c gen in r # run L rd cs gen')"

text \<open>
  A library to run the functions on: the engine is a counter, and a distribution returns
  the lower bound plus the counter reduced to the width of the bounds.
\<close>

definition counter_library :: "(nat, int) random_library" where
  "counter_library =
     \<lparr> mt19937_seed = unat,
       uniform_int_distribution = (\<lambda>lo hi g. (lo + int g mod (hi - lo + 1), Suc g)),
       uniform_real_distribution = (\<lambda>lo hi g. (lo + int g mod (hi - lo + 1), Suc g)),
       double_zero = 0,
       double_one = 1 \<rparr>"

subsection \<open>fs.hpp: creating directories\<close>

text \<open>
  The file tree of the host maps a path to the kind of what is there. A path is the list
  of its components from the root, as the host's path syntax reads the text. An
  operation returns what it returns or throws, and the tree as it leaves it.

  \<^verbatim>\<open>std::filesystem::create_directory(p)\<close> makes one directory: it returns true when it
  made it and false when \<open>p\<close> is a directory already, and it throws when \<open>p\<close> is something
  else or its parent is no directory. \<^verbatim>\<open>create_directories(p)\<close> does so for every
  component of \<open>p\<close> that does not exist, and returns whether it made the directory \<open>p\<close>.
\<close>

datatype node = File | Directory

type_synonym path = "string list"

type_synonym file_tree = "path \<Rightarrow> node option"

datatype filesystem_error = filesystem_error

definition create_directory :: "file_tree \<Rightarrow> path \<Rightarrow> (filesystem_error + bool) \<times> file_tree" where
  "create_directory tree p =
     (case tree p of
        Some Directory \<Rightarrow> (Inr False, tree)
      | Some File \<Rightarrow> (Inl filesystem_error, tree)
      | None \<Rightarrow>
          if p \<noteq> [] \<and> tree (butlast p) = Some Directory then (Inr True, tree(p \<mapsto> Directory))
          else (Inl filesystem_error, tree))"

function create_directories :: "file_tree \<Rightarrow> path \<Rightarrow> (filesystem_error + bool) \<times> file_tree" where
  "create_directories tree p =
     (case tree p of
        Some Directory \<Rightarrow> (Inr False, tree)
      | Some File \<Rightarrow> (Inl filesystem_error, tree)
      | None \<Rightarrow>
          if p = [] then (Inl filesystem_error, tree)
          else (case create_directories tree (butlast p) of
                  (Inl e, tree') \<Rightarrow> (Inl e, tree')
                | (Inr created, tree') \<Rightarrow> create_directory tree' p))"
  by pat_completeness auto
termination
  by (relation "measure (\<lambda>(tree, p). length p)") auto

declare create_directories.simps [simp del]

text \<open>\<^verbatim>\<open>mkdir\<close> (lines 109 to 111) and \<^verbatim>\<open>mkdirp\<close> (lines 114 to 116) return what the library returns.\<close>

definition mkdir :: "file_tree \<Rightarrow> path \<Rightarrow> (filesystem_error + bool) \<times> file_tree" where
  "mkdir tree path = create_directory tree path"

definition mkdirp :: "file_tree \<Rightarrow> path \<Rightarrow> (filesystem_error + bool) \<times> file_tree" where
  "mkdirp tree path = create_directories tree path"

text \<open>A tree to run them on: the root, \<^verbatim>\<open>/tmp\<close> and the file \<^verbatim>\<open>/tmp/log\<close>.\<close>

definition tmp_tree :: file_tree where
  "tmp_tree = [[] \<mapsto> Directory, [''tmp''] \<mapsto> Directory, [''tmp'', ''log''] \<mapsto> File]"

subsection \<open>io.hpp: formatted output\<close>

text \<open>
  \<^verbatim>\<open>format\<close> (lines 110 to 117) passes its template and its arguments to \<^verbatim>\<open>snprintf\<close>. C
  gives a call of \<^verbatim>\<open>snprintf\<close> a meaning only when the arguments agree with the conversion
  specifications of the template (there are enough of them and each has the type its
  specification asks for); otherwise the behaviour is undefined, the outcome
  \<open>Undefined\<close> here. What the library does is a parameter, a \<open>printf_library\<close> over the
  type \<open>'a\<close> of an argument: whether the arguments agree with a template, and the text
  an agreeing call renders (\<open>None\<close> when the library reports an error).
\<close>

datatype 'r outcome = Undefined | Returned 'r

record 'a printf_library =
  conversions_agree :: "string \<Rightarrow> 'a list \<Rightarrow> bool"
  rendering :: "string \<Rightarrow> 'a list \<Rightarrow> string option"

text \<open>
  \<^verbatim>\<open>snprintf(buf, size, fmt, args...)\<close> returns the length of the whole text, or a negative
  number on an error or when that length does not fit an \<^verbatim>\<open>int\<close>, and leaves at most
  \<open>size - 1\<close> characters of the text in the buffer (nothing for a \<open>size\<close> of 0).
\<close>

definition snprintf :: "'a printf_library \<Rightarrow> nat \<Rightarrow> string \<Rightarrow> 'a list \<Rightarrow> (int \<times> string) outcome" where
  "snprintf P n fmt args =
     (if \<not> conversions_agree P fmt args then Undefined
      else case rendering P fmt args of
        None \<Rightarrow> Returned (- 1, [])
      | Some text \<Rightarrow>
          if INT_MAX < int (length text) then Returned (- 1, [])
          else Returned (int (length text), take (n - 1) text))"

text \<open>
  \<^verbatim>\<open>format\<close>: the first call measures, the second fills a buffer of \<^verbatim>\<open>size\<close> characters
  (\<open>size'\<close> here), and the result is the first \<^verbatim>\<open>size - 1\<close> characters of the buffer. The
  sum \<^verbatim>\<open>+ 1\<close> is an \<^verbatim>\<open>int\<close>: where it overflows, the behaviour is undefined as well.
\<close>

definition format :: "'a printf_library \<Rightarrow> string \<Rightarrow> 'a list \<Rightarrow> string outcome" where
  "format P fmt args =
     (case snprintf P 0 fmt args of
        Undefined \<Rightarrow> Undefined
      | Returned (n, nothing) \<Rightarrow>
          if n = INT_MAX then Undefined
          else (let size' = n + 1
                in if size' \<le> 0 then Returned []
                   else case snprintf P (nat size') fmt args of
                     Undefined \<Rightarrow> Undefined
                   | Returned (m, buf) \<Rightarrow> Returned (take (nat (size' - 1)) buf)))"

text \<open>
  What the specification asks of a format operation \<open>f\<close>: on every template and
  arguments that do not agree it fails in a defined way, that is, its behaviour is
  never undefined there. A format that checks before it calls \<^verbatim>\<open>snprintf\<close> does so:
  \<open>format_checked\<close> returns the empty text on a mismatch.
\<close>

definition detects_mismatch :: "'a printf_library \<Rightarrow> (string \<Rightarrow> 'a list \<Rightarrow> string outcome) \<Rightarrow> bool" where
  "detects_mismatch P f = (\<forall>fmt args. \<not> conversions_agree P fmt args \<longrightarrow> f fmt args \<noteq> Undefined)"

definition format_checked :: "'a printf_library \<Rightarrow> string \<Rightarrow> 'a list \<Rightarrow> string outcome" where
  "format_checked P fmt args = (if conversions_agree P fmt args then format P fmt args else Returned [])"







section \<open>Properties of the text module\<close>

subsection \<open>Searching\<close>

lemma std_find_None:
  assumes "std_find s t pos = None" and "pos \<le> p"
  shows "\<not> match_at s t p"
proof
  assume m: "match_at s t p"
  then have "p < Suc (length s)" by (simp add: match_at_def)
  with assms(2) have "p \<in> set [pos ..< Suc (length s)]" by (simp del: upt_Suc)
  with assms(1) m show False
    unfolding std_find_def find_None_iff by blast
qed

lemma match_at_decompose:
  assumes "match_at s t p"
  shows "s = take p s @ t @ drop (p + length t) s"
proof -
  from assms have "take (length t) (drop p s) = t" by (simp add: match_at_def)
  then have "drop p s = t @ drop (length t) (drop p s)"
    by (metis append_take_drop_id)
  then have "drop p s = t @ drop (p + length t) s"
    by (simp add: add.commute)
  then show ?thesis
    by (metis append_take_drop_id)
qed

text \<open>\<^verbatim>\<open>find\<close> from the start fails exactly on the texts that do not hold \<open>t\<close>.\<close>

lemma std_find_None_iff:
  "std_find s t 0 = None \<longleftrightarrow> (\<nexists>pre post. s = pre @ t @ post)"
proof
  assume n: "std_find s t 0 = None"
  show "\<nexists>pre post. s = pre @ t @ post"
  proof
    assume "\<exists>pre post. s = pre @ t @ post"
    then obtain pre post where "s = pre @ t @ post" by blast
    then have "match_at s t (length pre)" by (simp add: match_at_def)
    with n show False by (auto dest: std_find_None)
  qed
next
  assume n: "\<nexists>pre post. s = pre @ t @ post"
  show "std_find s t 0 = None"
  proof (cases "std_find s t 0")
    case (Some p)
    then have "match_at s t p" by (rule std_find_Some)
    then have "s = take p s @ t @ drop (p + length t) s" by (rule match_at_decompose)
    with n show ?thesis by blast
  qed simp
qed

lemma contains_iff: "contains s t \<longleftrightarrow> (\<exists>pre post. s = pre @ t @ post)"
  unfolding contains_def std_find_None_iff by blast

lemma unat_sentinel: "unat (- 1 :: size_t) = 18446744073709551615"
  by (simp add: unsigned_minus_1_eq_mask mask_eq_exp_minus_1)

lemma size_t_of_position:
  assumes "p < npos"
  shows "unat (of_nat p :: size_t) = p" and "(of_nat p :: size_t) \<noteq> - 1"
proof -
  from assms have "p < 2 ^ LENGTH(64)" by (simp add: npos_def)
  then show u: "unat (of_nat p :: size_t) = p" by (simp add: unat_of_nat)
  show "(of_nat p :: size_t) \<noteq> - 1"
  proof
    assume "(of_nat p :: size_t) = - 1"
    then have "unat (of_nat p :: size_t) = unat (- 1 :: size_t)" by simp
    with u assms show False by (simp add: npos_def unat_sentinel)
  qed
qed

text \<open>
  Only failure gives the all-ones word: whenever the search text is absent, what
  \<^verbatim>\<open>indexOf\<close> returns reads as \<open>2 ^ 64 - 1\<close>.
\<close>

lemma indexOf_absent:
  assumes "std_find s t start = None"
  shows "unat (indexOf s t start) = 18446744073709551615"
  using assms by (simp add: indexOf_def unat_sentinel)

text \<open>
  Claim C2. When the search text is absent, \<^verbatim>\<open>indexOf\<close> and \<^verbatim>\<open>lastIndexOf\<close> should return
  the sentinel -1 as a signed quantity and never an unsigned value that has wrapped to
  a huge positive number. The code returns \<^verbatim>\<open>size_t\<close>: for \<^verbatim>\<open>"x"\<close> in \<^verbatim>\<open>"abc"\<close> both
  functions return 18446744073709551615.
\<close>

theorem indexOf_absent_is_huge:
  "unat (indexOf ''abc'' ''x'' 0) = 18446744073709551615
   \<and> unat (lastIndexOf ''abc'' ''x'') = 18446744073709551615"
  by (simp add: indexOf_def lastIndexOf_def std_find_def std_rfind_def match_at_def upt_rec
      unat_sentinel)

text \<open>
  Up to the representation the two functions agree: \<^verbatim>\<open>indexOf\<close> returns the all-ones
  word, which is what its \<^verbatim>\<open>-1\<close> becomes in a \<^verbatim>\<open>size_t\<close>, exactly when \<^verbatim>\<open>contains\<close> is false.
  That word is no -1: read as the number it is, what \<^verbatim>\<open>indexOf\<close> returns is never negative.
\<close>

lemma indexOf_all_ones_iff_not_contains:
  assumes "length s < npos"
  shows "indexOf s t 0 = - 1 \<longleftrightarrow> \<not> contains s t"
proof (cases "std_find s t 0")
  case None
  then show ?thesis by (simp add: indexOf_def contains_def)
next
  case (Some p)
  then have "p + length t \<le> length s" by (rule std_find_Some)
  with assms have "p < npos" by simp
  then have "(of_nat p :: size_t) \<noteq> - 1" by (rule size_t_of_position)
  with Some show ?thesis by (simp add: indexOf_def contains_def)
qed

lemma indexOf_never_minus_one: "uint (indexOf s t start) \<noteq> - 1"
proof -
  have "0 \<le> uint (indexOf s t start)" by simp
  then show ?thesis by linarith
qed

text \<open>
  Claim C6. For all texts \<open>s\<close> and \<open>t\<close>, \<^verbatim>\<open>indexOf(s, t)\<close> should return the sentinel -1 if and
  only if \<^verbatim>\<open>contains(s, t)\<close> is false. The code does not return -1 where \<^verbatim>\<open>contains\<close> is
  false: \<^verbatim>\<open>contains("abc", "x")\<close> is false and \<^verbatim>\<open>indexOf("abc", "x")\<close> is
  18446744073709551615, by the \<^verbatim>\<open>size_t\<close> return type of claim C2.
\<close>

theorem indexOf_absent_not_minus_one:
  "\<not> contains ''abc'' ''x''
   \<and> uint (indexOf ''abc'' ''x'' 0) = 18446744073709551615
   \<and> uint (indexOf ''abc'' ''x'' 0) \<noteq> - 1"
  by (simp add: contains_def indexOf_def std_find_def match_at_def upt_rec
      unsigned_minus_1_eq_mask mask_eq_exp_minus_1)

subsection \<open>Replacing\<close>

lemma replace_empty_search: "replace s [] t = Inr s"
  by (simp add: replace_def)

lemma std_find_empty: "std_find s [] 0 = Some 0"
  by (simp add: std_find_def match_at_def upt_rec)

text \<open>With an empty search text \<^verbatim>\<open>replaceFirst\<close> puts the replacement in front of the text.\<close>

lemma replaceFirst_empty_search: "replaceFirst s [] t = Inr (t @ s)"
  by (simp add: replaceFirst_def std_find_empty string_replace_def)

text \<open>
  Claim C3. Replacing an empty search text should be a no-op: \<^verbatim>\<open>replace(s, "", t) == s\<close> and
  \<^verbatim>\<open>replaceFirst(s, "", t) == s\<close>. \<^verbatim>\<open>replace\<close> returns \<open>s\<close> (line 152, lemma
  \<open>replace_empty_search\<close>); \<^verbatim>\<open>replaceFirst\<close> has no such guard and returns \<^verbatim>\<open>"Xabc"\<close> for
  \<^verbatim>\<open>replaceFirst("abc", "", "X")\<close>.
\<close>

theorem replaceFirst_empty_search_inserts:
  "replaceFirst ''abc'' '''' ''X'' = Inr ''Xabc'' \<and> replace ''abc'' '''' ''X'' = Inr ''abc''"
  by (simp add: replaceFirst_empty_search replace_empty_search)

subsection \<open>Slicing\<close>

lemma to_int_id: "INT_MIN \<le> x \<Longrightarrow> x \<le> INT_MAX \<Longrightarrow> to_int x = x"
  by (simp add: to_int_def INT_MIN_def INT_MAX_def)

lemma to_size_t_id: "0 \<le> x \<Longrightarrow> x \<le> INT_MAX \<Longrightarrow> to_size_t x = nat x"
  by (simp add: to_size_t_def INT_MAX_def)

lemma slice_str_refines:
  assumes len: "int (length s) \<le> INT_MAX"
    and start: "INT_MIN \<le> start" "start \<le> INT_MAX"
    and endx: "INT_MIN \<le> endx" "endx \<le> INT_MAX"
  shows "slice_str s start endx = Inr (slice_spec s start endx)"
proof -
  define n where "n = int (length s)"
  have n0: "0 \<le> n" by (simp add: n_def)
  have min0: "INT_MIN \<le> 0" "0 \<le> INT_MAX" by (simp_all add: INT_MIN_def INT_MAX_def)
  have n: "to_int n = n"
    using len n0 min0 by (intro to_int_id) (auto simp: n_def)
  define start1 where "start1 = (if start < 0 then max 0 (n + start) else start)"
  define end1 where "end1 = (if endx < 0 then n + endx else endx)"
  have s1: "(if start < 0 then max 0 (to_int (n + start)) else start) = start1"
    using len start n0 min0 unfolding start1_def n_def [symmetric]
    by (auto simp: to_int_id)
  have e1: "(if endx < 0 then to_int (n + endx) else endx) = end1"
    using len endx n0 min0 unfolding end1_def n_def [symmetric]
    by (auto simp: to_int_id)
  have code: "slice_str s start endx =
     (if n \<le> start1 \<or> end1 \<le> start1 then Inr []
      else substr s (to_size_t start1) (to_size_t (to_int (min end1 n - start1))))"
    unfolding slice_str_def Let_def n_def [symmetric] n s1 e1 ..
  show ?thesis
  proof (cases "n \<le> start1 \<or> end1 \<le> start1")
    case True
    then have "max 0 (min n (if endx < 0 then n + endx else endx))
        \<le> max 0 (min n (if start < 0 then n + start else start))"
      using n0 unfolding start1_def end1_def by (auto split: if_splits)
    then show ?thesis
      using True unfolding code slice_spec_def Let_def n_def [symmetric] by simp
  next
    case False
    then have b: "start1 < n" "start1 < end1" by auto
    have s0: "0 \<le> start1" using n0 unfolding start1_def by auto
    have a: "max 0 (min n (if start < 0 then n + start else start)) = start1"
      using b s0 n0 unfolding start1_def by (auto split: if_splits)
    have bb: "max 0 (min n (if endx < 0 then n + endx else endx)) = min end1 n"
      using b s0 n0 unfolding end1_def by (auto split: if_splits)
    have cnt: "0 \<le> min end1 n - start1" "min end1 n - start1 \<le> INT_MAX"
      "INT_MIN \<le> min end1 n - start1"
      using b s0 len min0 unfolding n_def [symmetric] by auto
    have "to_size_t start1 = nat start1"
      using s0 b len unfolding n_def [symmetric] by (intro to_size_t_id) auto
    moreover have "to_size_t (to_int (min end1 n - start1)) = nat (min end1 n - start1)"
      using cnt by (simp add: to_int_id to_size_t_id)
    moreover have "\<not> length s < nat start1"
      using b s0 unfolding n_def by auto
    ultimately show ?thesis
      using False b unfolding code slice_spec_def Let_def n_def [symmetric] a bb
      by (auto simp: substr_def)
  qed
qed

text \<open>
  Claim C5, as the code has it. For every text \<open>s\<close> whose length fits an \<^verbatim>\<open>int\<close> and
  all \<^verbatim>\<open>int\<close>s \<open>start\<close> and \<open>end\<close>, \<^verbatim>\<open>slice(s, start, end)\<close> resolves a negative index as
  length + index, clamps both bounds into \<open>[0, length]\<close> and returns the empty text when
  the start is not before the end after clamping (that is, it returns \<open>slice_spec\<close> and
  throws nothing); \<^verbatim>\<open>slice("hello", -3, -1) == "ll"\<close>, \<^verbatim>\<open>slice("hello", 10, 20) == ""\<close> and
  \<^verbatim>\<open>slice("hello", 1, 100) == "ello"\<close>.
\<close>

theorem slice_str_as_specified:
  assumes "int (length s) \<le> INT_MAX"
    and "INT_MIN \<le> start" and "start \<le> INT_MAX"
    and "INT_MIN \<le> endx" and "endx \<le> INT_MAX"
  shows "slice_str s start endx = Inr (slice_spec s start endx)
    \<and> slice_str ''hello'' (- 3) (- 1) = Inr ''ll''
    \<and> slice_str ''hello'' 10 20 = Inr ''''
    \<and> slice_str ''hello'' 1 100 = Inr ''ello''"
proof -
  have "slice_str ''hello'' (- 3) (- 1) = Inr ''ll''"
    and "slice_str ''hello'' 10 20 = Inr ''''"
    and "slice_str ''hello'' 1 100 = Inr ''ello''"
    by (simp_all add: slice_str_def to_int_def to_size_t_def substr_def)
  with slice_str_refines [OF assms] show ?thesis by simp
qed

theorem slice_str_as_specified_witness:
  "int (length ''hello'') \<le> INT_MAX \<and> INT_MIN \<le> - 4 \<and> - 4 \<le> INT_MAX \<and> 4 \<le> INT_MAX
   \<and> slice_spec ''hello'' (- 4) 4 = ''ell'' \<and> slice_str ''hello'' (- 4) 4 = Inr ''ell''"
proof -
  have h: "int (length ''hello'') \<le> INT_MAX" "INT_MIN \<le> - 4" "- 4 \<le> INT_MAX"
    "INT_MIN \<le> 4" "4 \<le> INT_MAX"
    by (simp_all add: INT_MIN_def INT_MAX_def)
  have v: "slice_spec ''hello'' (- 4) 4 = ''ell''"
    by (simp add: slice_spec_def)
  from slice_str_as_specified [OF h] have "slice_str ''hello'' (- 4) 4 = Inr (slice_spec ''hello'' (- 4) 4)"
    by simp
  with h v show ?thesis by simp
qed

text \<open>
  Claim C5 as stated fails, for it speaks of every text: line 44 converts the length to
  \<^verbatim>\<open>int\<close>, and a length of \<open>2 ^ 31\<close> becomes negative there. Of such a text \<^verbatim>\<open>slice(s, 0, 5)\<close>
  is empty, where the first five characters are specified.
\<close>

theorem slice_str_long_text_counterexample:
  "slice_str (replicate 2147483648 (CHR ''a'')) 0 5 = Inr ''''
   \<and> slice_spec (replicate 2147483648 (CHR ''a'')) 0 5 = ''aaaaa''"
proof -
  define s where "s = replicate 2147483648 (CHR ''a'')"
  have len: "length s = 2147483648" by (simp only: s_def length_replicate)
  have "to_int (int (length s)) = - 2147483648"
    unfolding len by (simp add: to_int_def)
  then have a: "slice_str s 0 5 = Inr ''''"
    by (simp add: slice_str_def)
  have "take 5 s = replicate 5 (CHR ''a'')"
    unfolding s_def take_replicate by simp
  also have "\<dots> = ''aaaaa''"
    by (simp add: numeral_eq_Suc)
  finally have "take 5 s = ''aaaaa''" .
  then have b: "slice_spec s 0 5 = ''aaaaa''"
    unfolding slice_spec_def len by simp
  from a b show ?thesis unfolding s_def by simp
qed

subsection \<open>Splitting and joining\<close>

lemma foldl_join:
  "foldl (\<lambda>oss part. oss @ d @ part) p ps = p @ concat (map (\<lambda>part. d @ part) ps)"
  by (induction ps arbitrary: p) simp_all

lemma join_Cons: "ps \<noteq> [] \<Longrightarrow> join (p # ps) d = p @ d @ join ps d"
  by (cases ps) (simp_all add: join_def foldl_join)

lemma join_single: "join [p] d = p"
  by (simp add: join_def)

text \<open>
  The invariant of the loop of \<^verbatim>\<open>split\<close>: the pieces still to come, joined, are the rest
  of the text from \<open>start\<close>; no \<^verbatim>\<open>substr\<close> throws.
\<close>

lemma split_loop_join:
  assumes "d \<noteq> []" and "start \<le> length s" and "length s \<le> npos"
  shows "\<exists>ps. split_loop s d start acc = Inr (acc @ ps) \<and> ps \<noteq> [] \<and> join ps d = drop start s"
  using assms
proof (induction s d start acc rule: split_loop.induct)
  case (1 s d start acc)
  show ?case
  proof (cases "std_find s d start")
    case None
    from "1.prems" have "take npos (drop start s) = drop start s" by simp
    with None "1.prems" show ?thesis
      by (subst split_loop.simps) (simp add: substr_def join_single)
  next
    case (Some e)
    then have e: "start \<le> e" "match_at s d e" "e + length d \<le> length s"
      by (auto dest: std_find_Some)
    define piece where "piece = take (e - start) (drop start s)"
    from e "1.prems" have sub: "substr s start (e - start) = Inr piece"
      by (simp add: substr_def piece_def)
    from "1.IH" [OF "1.prems"(1) Some sub "1.prems"(1) e(3) "1.prems"(3)]
    obtain ps where ps: "split_loop s d (e + length d) (acc @ [piece]) = Inr ((acc @ [piece]) @ ps)"
      "ps \<noteq> []" "join ps d = drop (e + length d) s"
      by blast
    have "drop start s = piece @ drop e s"
      using e(1) unfolding piece_def
      by (metis append_take_drop_id drop_drop le_add_diff_inverse2)
    moreover have "drop e s = d @ drop (e + length d) s"
    proof -
      from e(2) have "take (length d) (drop e s) = d" by (simp add: match_at_def)
      then have "drop e s = d @ drop (length d) (drop e s)"
        by (metis append_take_drop_id)
      then show ?thesis by (simp add: add.commute)
    qed
    ultimately have "join (piece # ps) d = drop start s"
      using ps by (simp add: join_Cons)
    moreover have "split_loop s d start acc = Inr (acc @ piece # ps)"
      using "1.prems"(1) Some sub ps(1) by (subst split_loop.simps) simp
    ultimately show ?thesis by blast
  qed
qed

lemma split_without_delimiter:
  assumes "d \<noteq> []" and "length s \<le> npos" and "\<nexists>pre post. s = pre @ d @ post"
  shows "split s d = Inr [s]"
proof -
  from assms(3) have "std_find s d 0 = None" by (simp add: std_find_None_iff)
  with assms(1,2) show ?thesis
    unfolding split_def by (subst split_loop.simps) (simp add: substr_def)
qed

text \<open>
  Claim C7. For every text \<open>s\<close> and non-empty delimiter \<open>d\<close>, \<^verbatim>\<open>join(split(s, d), d) == s\<close>, and
  \<^verbatim>\<open>split(s, d)\<close> has at least one element: the whole text if \<open>d\<close> never occurs in \<open>s\<close>. The
  claim asks the round trip only where \<open>d\<close> occurs inside no component; it holds without
  that condition. The length of \<open>s\<close> is at most \<^verbatim>\<open>npos\<close>, as that of every \<^verbatim>\<open>std::string\<close>.
\<close>

theorem join_split_roundtrip:
  assumes "d \<noteq> []" and "length s \<le> npos"
  shows "\<exists>parts. split s d = Inr parts \<and> join parts d = s \<and> 1 \<le> length parts
    \<and> ((\<nexists>pre post. s = pre @ d @ post) \<longrightarrow> parts = [s])"
proof -
  from split_loop_join [OF assms(1) _ assms(2), of 0 "[]"]
  obtain ps where ps: "split_loop s d 0 [] = Inr ps" "ps \<noteq> []" "join ps d = s"
    by auto
  from ps(1) assms(1) have s: "split s d = Inr ps" by (simp add: split_def)
  moreover from ps(2) have "1 \<le> length ps" by (cases ps) simp_all
  moreover have "ps = [s]" if "\<nexists>pre post. s = pre @ d @ post"
    using split_without_delimiter [OF assms that] s by simp
  ultimately show ?thesis using ps(3) by blast
qed

theorem join_split_roundtrip_witness:
  "'','' \<noteq> [] \<and> length ''a,b,,c'' \<le> npos
   \<and> split ''a,b,,c'' '','' = Inr [''a'', ''b'', '''', ''c'']
   \<and> (\<exists>parts. split ''a,b,,c'' '','' = Inr parts \<and> join parts '','' = ''a,b,,c''
        \<and> 1 \<le> length parts)"
proof -
  have h: "'','' \<noteq> []" "length ''a,b,,c'' \<le> npos" by (simp_all add: npos_def)
  have v: "split ''a,b,,c'' '','' = Inr [''a'', ''b'', '''', ''c'']"
    by (simp add: split_def std_find_def match_at_def substr_def npos_def upt_rec)
  from join_split_roundtrip [OF h] h v show ?thesis by blast
qed

subsection \<open>Parsing numbers\<close>

lemma takeWhile_run:
  "list_all P ds \<Longrightarrow> rest = [] \<or> \<not> P (hd rest) \<Longrightarrow> takeWhile P (ds @ rest) = ds"
  by (induction ds) (auto simp: takeWhile_eq_Nil_iff)

lemma dropWhile_run:
  "list_all P ws \<Longrightarrow> rest = [] \<or> \<not> P (hd rest) \<Longrightarrow> dropWhile P (ws @ rest) = rest"
  by (induction ws) (auto simp: dropWhile_eq_self_iff)

lemma isdigit_not_isspace:
  "isdigit c \<Longrightarrow> \<not> isspace c \<and> c \<noteq> CHR ''+'' \<and> c \<noteq> CHR ''-''"
  by (auto simp: isdigit_def isspace_def)

lemma sign_not_isspace: "\<not> isspace (CHR ''+'')" "\<not> isspace (CHR ''-'')"
  by (simp_all add: isspace_def)

text \<open>What \<^verbatim>\<open>stoi\<close> returns on white space, a sign, digits and a rest that starts with no digit.\<close>

lemma stoi_sign:
  assumes "list_all isspace ws" and "c = CHR ''+'' \<or> c = CHR ''-''" and "list_all isdigit ds"
    and "rest = [] \<or> \<not> isdigit (hd rest)"
  shows "stoi (ws @ c # ds @ rest) =
    (let v = (if c = CHR ''-'' then - decimal_value ds else decimal_value ds)
     in if ds = [] then Inl invalid_argument
        else if v < INT_MIN \<or> INT_MAX < v then Inl out_of_range else Inr v)"
proof -
  from assms(2) have "\<not> isspace c" by (auto simp: sign_not_isspace)
  with assms(1) have b: "dropWhile isspace (ws @ c # ds @ rest) = c # ds @ rest"
    by (intro dropWhile_run) simp_all
  from assms(3,4) have t: "takeWhile isdigit (ds @ rest) = ds"
    by (rule takeWhile_run)
  from assms(2) show ?thesis
  proof
    assume "c = CHR ''+''"
    then show ?thesis unfolding stoi_def b Let_def by (simp add: t)
  next
    assume "c = CHR ''-''"
    then show ?thesis unfolding stoi_def b Let_def by (simp add: t)
  qed
qed

text \<open>The same with no sign; with no digit either, the rest starts with no space and no sign.\<close>

lemma stoi_unsigned:
  assumes "list_all isspace ws" and "list_all isdigit ds"
    and "rest = [] \<or> \<not> isdigit (hd rest)"
    and "ds = [] \<longrightarrow> rest = []
      \<or> (\<not> isspace (hd rest) \<and> hd rest \<noteq> CHR ''+'' \<and> hd rest \<noteq> CHR ''-'')"
  shows "stoi (ws @ ds @ rest) =
    (let v = decimal_value ds
     in if ds = [] then Inl invalid_argument
        else if v < INT_MIN \<or> INT_MAX < v then Inl out_of_range else Inr v)"
proof (cases "ds = []")
  case True
  with assms(4) have r: "rest = [] \<or> \<not> isspace (hd rest)" by auto
  with assms(1) have b: "dropWhile isspace (ws @ rest) = rest"
    by (rule dropWhile_run)
  from assms(3) have t: "takeWhile isdigit rest = []"
    by (cases rest) auto
  from True assms(4) have ns: "(rest \<noteq> [] \<and> (hd rest = CHR ''-'' \<or> hd rest = CHR ''+'')) = False"
    by auto
  show ?thesis
    unfolding stoi_def True append_Nil b Let_def ns by (simp add: t)
next
  case False
  then obtain x xs where ds: "ds = x # xs" by (cases ds) auto
  with assms(2) have x: "isdigit x" by simp
  then have nx: "\<not> isspace x" "x \<noteq> CHR ''+''" "x \<noteq> CHR ''-''"
    by (auto dest: isdigit_not_isspace)
  with assms(1) have b: "dropWhile isspace (ws @ ds @ rest) = ds @ rest"
    unfolding ds by (intro dropWhile_run) simp_all
  from assms(2,3) have t: "takeWhile isdigit (ds @ rest) = ds"
    by (rule takeWhile_run)
  have h: "hd (ds @ rest) = x" "ds @ rest \<noteq> []" by (simp_all add: ds)
  show ?thesis
    unfolding stoi_def b Let_def h using nx False by (simp add: t)
qed

text \<open>Every text reads this way, so the two lemmas say what \<^verbatim>\<open>stoi\<close> returns on every text.\<close>

lemma leading_number_decomposition:
  "\<exists>ws sg ds rest. s = ws @ sg @ ds @ rest
     \<and> list_all isspace ws \<and> (sg = [] \<or> sg = ''+'' \<or> sg = ''-'')
     \<and> list_all isdigit ds \<and> (rest = [] \<or> \<not> isdigit (hd rest))
     \<and> (sg = [] \<and> ds = [] \<longrightarrow> rest = []
          \<or> (\<not> isspace (hd rest) \<and> hd rest \<noteq> CHR ''+'' \<and> hd rest \<noteq> CHR ''-''))"
proof -
  define ws where "ws = takeWhile isspace s"
  define body where "body = dropWhile isspace s"
  define signed where "signed \<longleftrightarrow> body \<noteq> [] \<and> (hd body = CHR ''-'' \<or> hd body = CHR ''+'')"
  define sg where "sg = (if signed then [hd body] else [])"
  define after where "after = (if signed then tl body else body)"
  define ds where "ds = takeWhile isdigit after"
  define rest where "rest = dropWhile isdigit after"
  have "s = ws @ body" by (simp add: ws_def body_def)
  moreover have "body = sg @ after" by (auto simp: sg_def after_def signed_def)
  moreover have "after = ds @ rest" by (simp add: ds_def rest_def)
  ultimately have "s = ws @ sg @ ds @ rest" by simp
  moreover have "list_all isspace ws"
    unfolding ws_def list_all_iff by (auto dest: set_takeWhileD)
  moreover have "sg = [] \<or> sg = ''+'' \<or> sg = ''-''"
    by (auto simp: sg_def signed_def)
  moreover have "list_all isdigit ds"
    unfolding ds_def list_all_iff by (auto dest: set_takeWhileD)
  moreover have "rest = [] \<or> \<not> isdigit (hd rest)"
    unfolding rest_def using hd_dropWhile [of isdigit after] by blast
  moreover have "rest = [] \<or> (\<not> isspace (hd rest) \<and> hd rest \<noteq> CHR ''+'' \<and> hd rest \<noteq> CHR ''-'')"
    if "sg = []" and "ds = []"
  proof -
    from that(1) have ns: "\<not> signed" by (auto simp: sg_def split: if_splits)
    then have "after = body" by (simp add: after_def)
    with that(2) \<open>after = ds @ rest\<close> have r: "rest = body" by simp
    have "body = [] \<or> \<not> isspace (hd body)"
      unfolding body_def using hd_dropWhile [of isspace s] by blast
    with ns r show ?thesis by (auto simp: signed_def)
  qed
  ultimately show ?thesis by blast
qed

lemmas toInt_eval = toInt_def stoi_def isspace_def isdigit_def decimal_value_def INT_MIN_def INT_MAX_def

text \<open>
  Claim C1, as the code has it. \<^verbatim>\<open>toInt(s, d)\<close> never raises. It reads \<open>s\<close> as white space
  \<open>ws\<close>, an optional sign \<open>sg\<close>, the longest run of digits \<open>ds\<close> and a rest that no digit
  starts. It returns \<open>d\<close> when there is no digit or the signed value of \<open>ds\<close> does not fit
  an \<^verbatim>\<open>int\<close>, and that value otherwise, whatever the rest is:
  \<^verbatim>\<open>toInt("42x", -1) == 42\<close> and \<^verbatim>\<open>toInt("42", -1) == 42\<close>.
\<close>

theorem toInt_reads_leading_number:
  assumes "list_all isspace ws" and "sg = [] \<or> sg = ''+'' \<or> sg = ''-''"
    and "list_all isdigit ds" and "rest = [] \<or> \<not> isdigit (hd rest)"
    and "sg = [] \<and> ds = [] \<longrightarrow> rest = []
      \<or> (\<not> isspace (hd rest) \<and> hd rest \<noteq> CHR ''+'' \<and> hd rest \<noteq> CHR ''-'')"
  shows "toInt (ws @ sg @ ds @ rest) d =
      (let v = (if sg = ''-'' then - decimal_value ds else decimal_value ds)
       in if ds = [] \<or> v < INT_MIN \<or> INT_MAX < v then d else v)
    \<and> toInt ''42x'' (- 1) = 42 \<and> toInt ''42'' (- 1) = 42"
proof -
  have general: "toInt (ws @ sg @ ds @ rest) d =
      (let v = (if sg = ''-'' then - decimal_value ds else decimal_value ds)
       in if ds = [] \<or> v < INT_MIN \<or> INT_MAX < v then d else v)"
  proof (cases "sg = []")
    case True
    with assms(5) have "ds = [] \<longrightarrow> rest = []
        \<or> (\<not> isspace (hd rest) \<and> hd rest \<noteq> CHR ''+'' \<and> hd rest \<noteq> CHR ''-'')"
      by simp
    from stoi_unsigned [OF assms(1,3,4) this] True show ?thesis
      by (simp add: toInt_def Let_def)
  next
    case False
    with assms(2) obtain c where c: "sg = [c]" "c = CHR ''+'' \<or> c = CHR ''-''" by auto
    from stoi_sign [OF assms(1) c(2) assms(3,4)] c show ?thesis
      by (auto simp: toInt_def Let_def)
  qed
  have "toInt ''42x'' (- 1) = 42" and "toInt ''42'' (- 1) = 42"
    by (simp_all add: toInt_eval)
  with general show ?thesis by simp
qed

theorem toInt_reads_leading_number_witness:
  "toInt '' -17;'' 5 = - 17 \<and> toInt ''abc'' 5 = 5 \<and> toInt ''+'' 5 = 5
   \<and> toInt ''2147483648'' 5 = 5"
proof -
  have "toInt '' -17;'' 5 = - 17"
    using toInt_reads_leading_number [of "'' ''" "''-''" "''17''" "'';''" 5]
    by (simp add: isspace_def isdigit_def decimal_value_def INT_MIN_def INT_MAX_def)
  moreover have "toInt ''abc'' 5 = 5"
    using toInt_reads_leading_number [of "[]" "[]" "[]" "''abc''" 5]
    by (simp add: isspace_def isdigit_def)
  moreover have "toInt ''+'' 5 = 5"
    using toInt_reads_leading_number [of "[]" "''+''" "[]" "[]" 5]
    by simp
  moreover have "toInt ''2147483648'' 5 = 5"
    using toInt_reads_leading_number [of "[]" "[]" "''2147483648''" "[]" 5]
    by (simp add: isdigit_def decimal_value_def INT_MIN_def INT_MAX_def)
  ultimately show ?thesis by simp
qed

text \<open>
  Claim C1 as stated fails: \<^verbatim>\<open>"42x"\<close> is malformed as an integer, and \<^verbatim>\<open>toInt("42x", -1)\<close>
  is 42, not the default.
\<close>

theorem toInt_trailing_text_counterexample:
  "toInt ''42x'' (- 1) = 42 \<and> toInt ''42x'' (- 1) \<noteq> - 1"
  by (simp add: toInt_eval)

subsection \<open>Numeric texts\<close>

lemma isdigit_iff: "isdigit c \<longleftrightarrow> c \<in> set ''0123456789''"
proof
  define n :: nat where "n = of_char c"
  assume "isdigit c"
  then have "48 \<le> n" and "n \<le> 57"
    unfolding isdigit_def n_def by auto
  then have "n \<in> {48, 49, 50, 51, 52, 53, 54, 55, 56, 57}"
    by (simp; arith)
  then have "n \<in> of_char ` set ''0123456789''"
    by simp
  then obtain d where "d \<in> set ''0123456789''" and "(of_char c :: nat) = of_char d"
    unfolding n_def by blast
  then show "c \<in> set ''0123456789''"
    by (simp only: of_char_eq_iff)
next
  assume "c \<in> set ''0123456789''"
  then show "isdigit c"
    by (auto simp: isdigit_def)
qed

lemma isNumeric_loop_iff:
  "isNumeric_loop s \<longleftrightarrow> (\<forall>c\<in>set s. isdigit c \<or> c = CHR ''.'' \<or> c = CHR ''-'' \<or> c = CHR ''+'')"
  by (induction s) auto

lemmas strtod_eval = strtod_subject_def strtod_unsigned_def number_form_def mantissa_def
  exponent_def nan_tail_def sign_of_def tolower_def isspace_def isdigit_def isxdigit_def
  isalpha_def

text \<open>
  Claim C10, as the code has it. \<^verbatim>\<open>isNumeric(s)\<close> is true if and only if \<open>s\<close> is non-empty
  and every character of \<open>s\<close> is a decimal digit, \<^verbatim>\<open>.\<close>, \<^verbatim>\<open>-\<close> or \<^verbatim>\<open>+\<close>. It accepts \<^verbatim>\<open>"+-."\<close>,
  which \<^verbatim>\<open>toInt\<close> and \<^verbatim>\<open>toFloat\<close> cannot parse (both return the default), so
  \<^verbatim>\<open>isNumeric(s)\<close> does not imply that \<open>s\<close> parses as a number. It accepts \<^verbatim>\<open>"1.2.3"\<close> as well,
  and that text both do parse: \<^verbatim>\<open>toInt\<close> returns its leading 1 and \<^verbatim>\<open>toFloat\<close> the value of its
  leading \<^verbatim>\<open>1.2\<close> (the default only if that value is out of range).
\<close>

theorem isNumeric_chars:
  "(isNumeric s \<longleftrightarrow> s \<noteq> [] \<and> (\<forall>c\<in>set s. c \<in> set ''0123456789.-+''))
   \<and> isNumeric ''+-.'' \<and> toInt ''+-.'' d = d \<and> toFloat to_double ''+-.'' x = x
   \<and> isNumeric ''1.2.3'' \<and> toInt ''1.2.3'' d = 1
   \<and> toFloat to_double ''1.2.3'' x = (case to_double ''1.2'' of None \<Rightarrow> x | Some v \<Rightarrow> v)"
proof -
  have "isNumeric s \<longleftrightarrow> s \<noteq> [] \<and> (\<forall>c\<in>set s. c \<in> set ''0123456789.-+'')"
    unfolding isNumeric_def isNumeric_loop_iff isdigit_iff by auto
  moreover have "isNumeric ''+-.''" and "isNumeric ''1.2.3''"
    by (simp_all add: isNumeric_def isdigit_def)
  moreover have "toInt ''+-.'' d = d" and "toInt ''1.2.3'' d = 1"
    by (simp_all add: toInt_eval)
  moreover have "strtod_subject ''+-.'' = []" and "strtod_subject ''1.2.3'' = ''1.2''"
    by (simp_all add: strtod_eval)
  then have "toFloat to_double ''+-.'' x = x"
    and "toFloat to_double ''1.2.3'' x = (case to_double ''1.2'' of None \<Rightarrow> x | Some v \<Rightarrow> v)"
    by (simp_all add: toFloat_def stod_def split: option.splits)
  ultimately show ?thesis by simp
qed

theorem isNumeric_chars_witness:
  "isNumeric ''-12.5'' \<and> \<not> isNumeric ''12a'' \<and> \<not> isNumeric [] \<and> toInt ''+-.'' 7 = 7
   \<and> toFloat Some ''+-.'' ''default'' = ''default'' \<and> toFloat Some ''1.2.3'' ''default'' = ''1.2''"
proof -
  have "isNumeric ''-12.5''"
    using isNumeric_chars [of "''-12.5''" 7 Some "''default''"] by simp
  moreover have "\<not> isNumeric ''12a''"
    using isNumeric_chars [of "''12a''" 7 Some "''default''"] by simp
  moreover have "\<not> isNumeric []" and "toInt ''+-.'' 7 = 7"
    and "toFloat Some ''+-.'' ''default'' = ''default''"
    and "toFloat Some ''1.2.3'' ''default'' = ''1.2''"
    using isNumeric_chars [of "[]" 7 Some "''default''"] by simp_all
  ultimately show ?thesis by simp
qed

text \<open>
  Claim C10 as stated fails: \<^verbatim>\<open>"1.2.3"\<close> is no text that \<^verbatim>\<open>toInt\<close> and \<^verbatim>\<open>toFloat\<close> cannot
  parse. \<^verbatim>\<open>stoi\<close> reads its leading 1, so \<^verbatim>\<open>toInt\<close> does not return the default, and the
  subject sequence of \<^verbatim>\<open>stod\<close> is \<^verbatim>\<open>1.2\<close> (here with a \<^verbatim>\<open>double\<close> written as the text it was
  read from).
\<close>

theorem isNumeric_parsed_counterexample:
  "isNumeric ''1.2.3'' \<and> stoi ''1.2.3'' = Inr 1 \<and> toInt ''1.2.3'' (- 1) \<noteq> - 1
   \<and> strtod_subject ''1.2.3'' = ''1.2'' \<and> stod Some ''1.2.3'' = Inr ''1.2''"
  by (simp add: isNumeric_def toInt_def stoi_def decimal_value_def INT_MIN_def INT_MAX_def
      stod_def strtod_eval)

section \<open>Properties of the file system module\<close>

lemma create_directories_existing:
  "tree p = Some Directory \<Longrightarrow> create_directories tree p = (Inr False, tree)"
  by (subst create_directories.simps) simp

lemma create_directory_made:
  "create_directory tree p = (Inr created, tree') \<Longrightarrow> tree' p = Some Directory"
  by (auto simp: create_directory_def split: option.splits node.splits if_splits)

lemma create_directories_made:
  assumes "create_directories tree p = (Inr created, tree')"
  shows "tree' p = Some Directory"
proof (cases "tree p")
  case None
  with assms show ?thesis
    by (subst (asm) create_directories.simps)
      (auto split: if_splits prod.splits sum.splits dest: create_directory_made)
next
  case (Some k)
  with assms show ?thesis
    by (subst (asm) create_directories.simps) (cases k; simp)
qed

lemma mkdirp_twice:
  assumes "mkdirp tree p = (Inr created, tree')"
  shows "mkdirp tree' p = (Inr False, tree')"
  using assms unfolding mkdirp_def
  by (intro create_directories_existing) (rule create_directories_made)

text \<open>What the two operations do where a directory is missing: a run on \<open>tmp_tree\<close>.\<close>

lemma tmp_tree_simps:
  "tmp_tree [] = Some Directory" "tmp_tree [''tmp''] = Some Directory"
  "tmp_tree [''tmp'', ''log''] = Some File" "tmp_tree [''tmp'', ''a''] = None"
  "tmp_tree [''tmp'', ''a'', ''b''] = None"
  by (simp_all add: tmp_tree_def)

lemma mkdir_needs_parent:
  "mkdir tmp_tree [''tmp'', ''a'', ''b''] = (Inl filesystem_error, tmp_tree)"
  by (simp add: mkdir_def create_directory_def tmp_tree_simps)

lemma mkdirp_makes_all_levels:
  "mkdirp tmp_tree [''tmp'', ''a'', ''b'']
     = (Inr True, tmp_tree([''tmp'', ''a''] \<mapsto> Directory, [''tmp'', ''a'', ''b''] \<mapsto> Directory))"
proof -
  have "create_directories tmp_tree [''tmp''] = (Inr False, tmp_tree)"
    by (rule create_directories_existing) (rule tmp_tree_simps)
  then have "create_directories tmp_tree [''tmp'', ''a'']
      = (Inr True, tmp_tree([''tmp'', ''a''] \<mapsto> Directory))"
    by (subst create_directories.simps) (simp add: create_directory_def tmp_tree_simps)
  then show ?thesis
    unfolding mkdirp_def
    by (subst create_directories.simps) (simp add: create_directory_def tmp_tree_simps)
qed

text \<open>
  Claim C4, as the code has it. For every path \<open>p\<close> that already names an existing
  directory, \<^verbatim>\<open>mkdirp(p)\<close> throws nothing and leaves the file tree as it is, and it returns
  false: \<^verbatim>\<open>create_directories\<close> returns whether it made a directory, and \<^verbatim>\<open>mkdirp\<close> returns
  that.
\<close>

theorem mkdirp_existing_directory:
  assumes "tree p = Some Directory"
  shows "mkdirp tree p = (Inr False, tree)"
  using assms by (simp add: mkdirp_def create_directories_existing)

theorem mkdirp_existing_directory_witness:
  "tmp_tree [''tmp''] = Some Directory \<and> mkdirp tmp_tree [''tmp''] = (Inr False, tmp_tree)"
proof -
  have h: "tmp_tree [''tmp''] = Some Directory" by (rule tmp_tree_simps)
  from mkdirp_existing_directory [of tmp_tree "[''tmp'']"] h show ?thesis by simp
qed

text \<open>
  Claim C4 as stated fails: \<^verbatim>\<open>/tmp\<close> is a directory of \<open>tmp_tree\<close>, and \<^verbatim>\<open>mkdirp\<close> returns
  false there, not the true success indicator.
\<close>

theorem mkdirp_existing_counterexample:
  "tmp_tree [''tmp''] = Some Directory \<and> fst (mkdirp tmp_tree [''tmp'']) = Inr False
   \<and> fst (mkdirp tmp_tree [''tmp'']) \<noteq> Inr True"
  by (simp add: mkdirp_def tmp_tree_simps create_directories_existing)

section \<open>Properties of the numeric module\<close>

text \<open>Once the engine exists, the number of \<^verbatim>\<open>std::random_device\<close> is read no more.\<close>

lemma do_call_initialised:
  "do_call L rd1 c (Some g) = do_call L rd2 c (Some g)"
  by (cases c) (simp_all add: random01_def randomInt_def randomFloat_def seed_def getRandomEngine_def)

lemma do_call_leaves_engine:
  "\<exists>r g'. do_call L rd c gen = (r, Some g')"
  by (cases c) (simp_all add: random01_def randomInt_def randomFloat_def seed_def split_beta)

lemma run_initialised:
  "run L rd1 cs (Some g) = run L rd2 cs (Some g)"
proof (induction cs arbitrary: g)
  case Nil
  show ?case by simp
next
  case (Cons c cs)
  obtain r g' where c: "do_call L rd2 c (Some g) = (r, Some g')"
    using do_call_leaves_engine [of L rd2 c "Some g"] by blast
  then have "do_call L rd1 c (Some g) = (r, Some g')"
    by (simp add: do_call_initialised [of L rd1 c g rd2])
  with c Cons.IH [of g'] show ?case by simp
qed

text \<open>
  Claim C8. The random stream is deterministic under seeding: two runs that call \<^verbatim>\<open>seed\<close>
  with the same value and then make the same calls of the draw functions in the same
  order return the same values, whatever the engine was before (\<open>gen1\<close>, \<open>gen2\<close>) and
  whatever \<^verbatim>\<open>std::random_device\<close> gives in either run (\<open>rd1\<close>, \<open>rd2\<close>); and
  \<^verbatim>\<open>randomInt(n, n)\<close> returns \<open>n\<close>. The hypothesis is the library's contract for
  \<^verbatim>\<open>std::uniform_int_distribution\<close>: its result lies within its bounds.
\<close>

theorem seeded_runs_agree:
  assumes "\<forall>lo hi g. lo \<le> hi \<longrightarrow> lo \<le> fst (uniform_int_distribution L lo hi g)
    \<and> fst (uniform_int_distribution L lo hi g) \<le> hi"
  shows "run L rd1 (Seed s # calls) gen1 = run L rd2 (Seed s # calls) gen2
    \<and> fst (randomInt L rd n n gen) = n"
proof -
  have "run L rd1 (Seed s # calls) gen1 = RVoid # run L rd1 calls (Some (mt19937_seed L s))"
    and "run L rd2 (Seed s # calls) gen2 = RVoid # run L rd2 calls (Some (mt19937_seed L s))"
    by (simp_all add: seed_def)
  then have "run L rd1 (Seed s # calls) gen1 = run L rd2 (Seed s # calls) gen2"
    by (simp add: run_initialised [of L rd1 calls _ rd2])
  moreover from assms have "n \<le> fst (uniform_int_distribution L n n (getRandomEngine L rd gen))"
    and "fst (uniform_int_distribution L n n (getRandomEngine L rd gen)) \<le> n"
    by simp_all
  then have "fst (randomInt L rd n n gen) = n"
    by (simp add: randomInt_def split_beta)
  ultimately show ?thesis by simp
qed

lemma counter_library_in_bounds:
  "\<forall>lo hi g. lo \<le> hi \<longrightarrow> lo \<le> fst (uniform_int_distribution counter_library lo hi g)
    \<and> fst (uniform_int_distribution counter_library lo hi g) \<le> hi"
proof (intro allI impI)
  fix lo hi :: int and g :: nat
  assume "lo \<le> hi"
  then have "0 < hi - lo + 1" by simp
  then have "0 \<le> int g mod (hi - lo + 1)" and "int g mod (hi - lo + 1) < hi - lo + 1"
    by (simp_all only: pos_mod_sign pos_mod_bound)
  then show "lo \<le> fst (uniform_int_distribution counter_library lo hi g)
    \<and> fst (uniform_int_distribution counter_library lo hi g) \<le> hi"
    by (simp add: counter_library_def)
qed


theorem seeded_runs_agree_witness:
  "run counter_library 1 [Seed 42, RandomInt 1 10, Random, RandomInt 1 10] None
     = run counter_library 2 [Seed 42, RandomInt 1 10, Random, RandomInt 1 10] (Some 7)
   \<and> fst (randomInt counter_library 3 5 5 None) = 5"
  using seeded_runs_agree [OF counter_library_in_bounds,
      of 1 42 "[RandomInt 1 10, Random, RandomInt 1 10]" None 2 "Some 7" 3 5 None]
  by simp


lemma seeded_run_example:
  "run counter_library 1 [Seed 42, RandomInt 1 10, Random, RandomInt 1 10] None
     = [RVoid, RInt 3, RDouble 1, RInt 5]"
  by (simp add: seed_def randomInt_def random01_def getRandomEngine_def counter_library_def)

section \<open>Properties of the console module\<close>

text \<open>A format that checks first does what the specification asks, with every library.\<close>

lemma format_checked_detects: "detects_mismatch P (format_checked P)"
  by (simp add: detects_mismatch_def format_checked_def)




end
